theory Spec2Isabelle
  imports Main
begin

section \<open>Python string operations used by the translator\<close>

text \<open>
  A Python \<open>str\<close> is modelled as a \<open>string\<close>. The case mapping and the whitespace
  set are the 7-bit part of Python's tables: a character with a code of 128 or more is
  neither cased nor white. That is exact for text made of ASCII, Bengali and Chakma
  characters, the two scripts having neither case nor whitespace characters of their
  own.
\<close>

definition isspace :: "char \<Rightarrow> bool" where
  \<comment> \<open>\<open>str.isspace\<close> on one character: TAB, LF, VT, FF, CR, FS, GS, RS, US and the space.\<close>
  "isspace c = (of_char c \<in> {9, 10, 11, 12, 13, 28, 29, 30, 31, 32 :: nat})"

definition lower_char :: "char \<Rightarrow> char" where
  "lower_char c =
     (let n = of_char c :: nat in if 65 \<le> n \<and> n \<le> 90 then char_of (n + 32) else c)"


definition lower :: "string \<Rightarrow> string" where
  \<comment> \<open>\<open>str.lower()\<close>\<close>
  "lower s = map lower_char s"

definition strip :: "string \<Rightarrow> string" where
  \<comment> \<open>\<open>str.strip()\<close> with no argument: whitespace goes from both ends.\<close>
  "strip s = rev (dropWhile isspace (rev (dropWhile isspace s)))"

fun split_sep :: "char \<Rightarrow> string \<Rightarrow> string \<Rightarrow> string list" where
  \<comment> \<open>\<open>str.split(sep)\<close> for a one-character separator; the second argument is the piece
      being read, reversed. Every separator ends a piece, so empty pieces are kept.\<close>
  "split_sep sep cur [] = [rev cur]"
| "split_sep sep cur (c # cs) =
     (if c = sep then rev cur # split_sep sep [] cs else split_sep sep (c # cur) cs)"

definition split_on :: "char \<Rightarrow> string \<Rightarrow> string list" where
  "split_on sep s = split_sep sep [] s"

fun split_run :: "string \<Rightarrow> string \<Rightarrow> string list" where
  \<comment> \<open>\<open>str.split()\<close> with no argument: the maximal runs of non-white characters. The
      first argument is the run being read, reversed.\<close>
  "split_run cur [] = (if cur = [] then [] else [rev cur])"
| "split_run cur (c # cs) =
     (if isspace c then (if cur = [] then [] else [rev cur]) @ split_run [] cs
      else split_run (c # cur) cs)"

definition split_ws :: "string \<Rightarrow> string list" where
  "split_ws s = split_run [] s"

fun join :: "string \<Rightarrow> string list \<Rightarrow> string" where
  \<comment> \<open>\<open>sep.join(xs)\<close>\<close>
  "join sep [] = []"
| "join sep [x] = x"
| "join sep (x # y # ys) = x @ sep @ join sep (y # ys)"

definition normalize_term :: "string \<Rightarrow> string" where
  \<comment> \<open>The specification's \<open>normalize(term) = trim(term).toLowerCase()\<close>; the source has no
      function of this name and applies \<open>strip\<close> and \<open>lower\<close> where it needs them.\<close>
  "normalize_term s = lower (strip s)"


section \<open>The dictionary loader\<close>

text \<open>
  \<open>pd.read_csv\<close> gives one value per cell: the text of the cell, or the float NaN for a
  cell with nothing in it. The loader applies \<open>str\<close> to the value, and \<open>str\<close> of NaN is
  the three letters \<open>nan\<close>.
\<close>

datatype cell = NaN | Str string

fun str_cell :: "cell \<Rightarrow> string" where
  "str_cell NaN = ''nan''"
| "str_cell (Str s) = s"

record row =
  chakma :: cell
  bangla :: cell

type_synonym index = "string \<rightharpoonup> string list"

record translator =
  chakma_to_bangla :: index
  bangla_to_chakma :: index

definition chakma_words :: "row \<Rightarrow> string list" where
  "chakma_words r = map strip (split_on CHR '','' (str_cell (chakma r)))"

definition bangla_words :: "row \<Rightarrow> string list" where
  "bangla_words r = map strip (split_on CHR '','' (str_cell (bangla r)))"

fun add_keys :: "index \<Rightarrow> string list \<Rightarrow> string list \<Rightarrow> index" where
  \<comment> \<open>One of the two inner loops: \<open>for w in ws: if w: d[w.lower()] = v\<close>\<close>
  "add_keys d [] v = d"
| "add_keys d (w # ws) v = add_keys (if w \<noteq> [] then d(lower w \<mapsto> v) else d) ws v"

definition add_row :: "translator \<Rightarrow> row \<Rightarrow> translator" where
  \<comment> \<open>The body of the loop over the rows. Both loops store \<open>bangla_words\<close>.\<close>
  "add_row t r =
     t\<lparr>chakma_to_bangla := add_keys (chakma_to_bangla t) (chakma_words r) (bangla_words r),
       bangla_to_chakma := add_keys (bangla_to_chakma t) (bangla_words r) (bangla_words r)\<rparr>"

definition empty_translator :: translator where
  "empty_translator = \<lparr>chakma_to_bangla = Map.empty, bangla_to_chakma = Map.empty\<rparr>"

definition build_dictionaries :: "row list \<Rightarrow> translator" where
  \<comment> \<open>\<open>__init__\<close> followed by \<open>_build_dictionaries\<close>: both dictionaries start empty.\<close>
  "build_dictionaries df = foldl add_row empty_translator df"


section \<open>The translator\<close>

text \<open>
  An exception carries its message, which the endpoint puts into the body of a 500
  response (the wording is that of CPython 3.11 to 3.13).
\<close>

datatype py_error = IndexError string | TypeError string | AttributeError string | KeyError string


definition list_index_error :: py_error where
  "list_index_error = IndexError ''list index out of range''"

definition translate_word :: "translator \<Rightarrow> string \<Rightarrow> bool \<Rightarrow> string list" where
  "translate_word t word to_bangla =
     (let word = lower word;
          dictionary = (if to_bangla then chakma_to_bangla t else bangla_to_chakma t)
      in case dictionary word of Some v \<Rightarrow> v | None \<Rightarrow> [word])"

definition alternative_entry :: "string \<Rightarrow> string list \<Rightarrow> string" where
  \<comment> \<open>the f-string \<open>f"{word}: {', '.join(translations)}"\<close>\<close>
  "alternative_entry word translations = word @ '': '' @ join '', '' translations"

fun translate_loop ::
  "translator \<Rightarrow> bool \<Rightarrow> string list \<Rightarrow> string list \<Rightarrow> string list
     \<Rightarrow> py_error + (string list \<times> string list)" where
  \<comment> \<open>The loop over the words of the sentence, with its two accumulators;
      \<open>translations[0]\<close> raises IndexError on an empty list.\<close>
  "translate_loop t to_bangla [] primary_translation all_possibilities =
     Inr (primary_translation, all_possibilities)"
| "translate_loop t to_bangla (word # words) primary_translation all_possibilities =
     (let translations = translate_word t word to_bangla
      in case translations of
           [] \<Rightarrow> Inl list_index_error
         | first # _ \<Rightarrow>
             translate_loop t to_bangla words (primary_translation @ [first])
               (if length translations > 1
                then all_possibilities @ [alternative_entry word translations]
                else all_possibilities))"

definition translate_sentence ::
  "translator \<Rightarrow> string \<Rightarrow> bool \<Rightarrow> py_error + (string \<times> string list)" where
  "translate_sentence t sentence to_bangla =
     (case translate_loop t to_bangla (split_ws sentence) [] [] of
        Inl e \<Rightarrow> Inl e
      | Inr (primary_translation, all_possibilities) \<Rightarrow>
          Inr (join '' '' primary_translation,
               if all_possibilities \<noteq> [] then all_possibilities
               else [''No alternative translations'']))"


section \<open>The word endpoint\<close>















section \<open>Notions used to state the properties\<close>

definition keys_of :: "string list \<Rightarrow> string list" where
  \<comment> \<open>the keys that one inner loop of the loader writes for a list of terms\<close>
  "keys_of ws = map lower (filter (\<lambda>w. w \<noteq> []) ws)"



definition no_alternatives :: "string list" where
  "no_alternatives = [''No alternative translations'']"


section \<open>Characters and strings\<close>

lemma of_char_lower_char:
  "(of_char (lower_char c) :: nat) =
     (if 65 \<le> (of_char c :: nat) \<and> (of_char c :: nat) \<le> 90 then of_char c + 32 else of_char c)"
  by (simp add: lower_char_def Let_def)


lemma lower_char_idem: "lower_char (lower_char c) = lower_char c"
proof (rule of_char_eqI [where ?'a = nat])
  show "(of_char (lower_char (lower_char c)) :: nat) = of_char (lower_char c)"
    by (simp add: of_char_lower_char)
qed


lemma isspace_lower_char: "isspace (lower_char c) = isspace c"
  by (auto simp add: isspace_def of_char_lower_char)

lemma lower_idem: "lower (lower s) = lower s"
  by (simp add: lower_def lower_char_idem)

lemma lower_Nil_iff: "lower s = [] \<longleftrightarrow> s = []"
  by (simp add: lower_def)

lemma strip_lower: "strip (lower s) = lower (strip s)"
  by (simp add: strip_def lower_def dropWhile_map rev_map comp_def isspace_lower_char)


text \<open>
  Stripping leaves a string that starts and ends with a character that is not white, so
  a second stripping finds nothing to remove.
\<close>

lemma strip_idem: "strip (strip s) = strip s"
proof -
  let ?a = "dropWhile isspace s"
  let ?b = "dropWhile isspace (rev ?a)"
  have b: "dropWhile isspace ?b = ?b" by (rule dropWhile_idem)
  have split: "?a = rev ?b @ rev (takeWhile isspace (rev ?a))"
    by (metis rev_append rev_rev_ident takeWhile_dropWhile_id)
  have "dropWhile isspace (rev ?b) = rev ?b"
  proof (cases "?b = []")
    case True
    then show ?thesis by (simp only: rev.simps dropWhile.simps)
  next
    case False
    then have nb: "rev ?b \<noteq> []" by simp
    with split have "hd (rev ?b) = hd ?a" by (metis hd_append2)
    moreover from nb split have "?a \<noteq> []" by (metis append_is_Nil_conv)
    then have "\<not> isspace (hd ?a)" by (rule hd_dropWhile)
    ultimately show ?thesis by (simp add: dropWhile_eq_self_iff)
  qed
  then show ?thesis by (simp add: strip_def b)
qed

lemma split_sep_not_Nil: "split_sep sep cur s \<noteq> []"
  by (induction s arbitrary: cur) simp_all


section \<open>What the loader stores\<close>

lemma add_keys_apply:
  "add_keys d ws v k = (if k \<in> set (keys_of ws) then Some v else d k)"
  by (induction ws arbitrary: d) (auto simp add: keys_of_def)

lemma chakma_to_bangla_add_row:
  "chakma_to_bangla (add_row t r) k =
     (if k \<in> set (keys_of (chakma_words r)) then Some (bangla_words r) else chakma_to_bangla t k)"
  by (simp add: add_row_def add_keys_apply)

lemma bangla_to_chakma_add_row:
  "bangla_to_chakma (add_row t r) k =
     (if k \<in> set (keys_of (bangla_words r)) then Some (bangla_words r) else bangla_to_chakma t k)"
  by (simp add: add_row_def add_keys_apply)

text \<open>Rows that do not write a key leave its entry as it is.\<close>

lemma chakma_to_bangla_later_rows:
  "\<forall>r \<in> set post. k \<notin> set (keys_of (chakma_words r)) \<Longrightarrow>
     chakma_to_bangla (foldl add_row t post) k = chakma_to_bangla t k"
  by (induction post arbitrary: t) (simp_all add: chakma_to_bangla_add_row)

lemma bangla_to_chakma_later_rows:
  "\<forall>r \<in> set post. k \<notin> set (keys_of (bangla_words r)) \<Longrightarrow>
     bangla_to_chakma (foldl add_row t post) k = bangla_to_chakma t k"
  by (induction post arbitrary: t) (simp_all add: bangla_to_chakma_add_row)

lemma chakma_to_bangla_last_row:
  assumes "k \<in> set (keys_of (chakma_words r))"
    and "\<forall>r' \<in> set post. k \<notin> set (keys_of (chakma_words r'))"
  shows "chakma_to_bangla (build_dictionaries (pre @ r # post)) k = Some (bangla_words r)"
  using assms
  by (simp add: build_dictionaries_def chakma_to_bangla_later_rows chakma_to_bangla_add_row)

lemma bangla_to_chakma_last_row:
  assumes "k \<in> set (keys_of (bangla_words r))"
    and "\<forall>r' \<in> set post. k \<notin> set (keys_of (bangla_words r'))"
  shows "bangla_to_chakma (build_dictionaries (pre @ r # post)) k = Some (bangla_words r)"
  using assms
  by (simp add: build_dictionaries_def bangla_to_chakma_later_rows bangla_to_chakma_add_row)

text \<open>Every entry was there at the start or comes from a row that wrote its key.\<close>

lemma chakma_to_bangla_origin:
  "chakma_to_bangla (foldl add_row t df) k = Some v \<Longrightarrow>
     chakma_to_bangla t k = Some v \<or>
     (\<exists>r \<in> set df. v = bangla_words r \<and> k \<in> set (keys_of (chakma_words r)))"
proof (induction df arbitrary: t)
  case Nil
  then show ?case by simp
next
  case (Cons r df)
  from Cons.prems have "chakma_to_bangla (foldl add_row (add_row t r) df) k = Some v" by simp
  from Cons.IH [OF this] show ?case
    by (auto simp add: chakma_to_bangla_add_row split: if_splits)
qed

lemma bangla_to_chakma_origin:
  "bangla_to_chakma (foldl add_row t df) k = Some v \<Longrightarrow>
     bangla_to_chakma t k = Some v \<or>
     (\<exists>r \<in> set df. v = bangla_words r \<and> k \<in> set (keys_of (bangla_words r)))"
proof (induction df arbitrary: t)
  case Nil
  then show ?case by simp
next
  case (Cons r df)
  from Cons.prems have "bangla_to_chakma (foldl add_row (add_row t r) df) k = Some v" by simp
  from Cons.IH [OF this] show ?case
    by (auto simp add: bangla_to_chakma_add_row split: if_splits)
qed

lemma chakma_to_bangla_built:
  "chakma_to_bangla (build_dictionaries df) k = Some v \<Longrightarrow>
     \<exists>r \<in> set df. v = bangla_words r \<and> k \<in> set (keys_of (chakma_words r))"
  using chakma_to_bangla_origin [of empty_translator df k v]
  by (simp add: build_dictionaries_def empty_translator_def)

lemma bangla_to_chakma_built:
  "bangla_to_chakma (build_dictionaries df) k = Some v \<Longrightarrow>
     \<exists>r \<in> set df. v = bangla_words r \<and> k \<in> set (keys_of (bangla_words r))"
  using bangla_to_chakma_origin [of empty_translator df k v]
  by (simp add: build_dictionaries_def empty_translator_def)

lemma bangla_words_not_Nil: "bangla_words r \<noteq> []"
  by (simp add: bangla_words_def split_on_def split_sep_not_Nil)

lemma bangla_words_stripped: "b \<in> set (bangla_words r) \<Longrightarrow> strip b = b"
  by (auto simp add: bangla_words_def strip_idem)

lemma chakma_words_stripped: "a \<in> set (chakma_words r) \<Longrightarrow> strip a = a"
  by (auto simp add: chakma_words_def strip_idem)

lemma translate_word_built_not_Nil:
  "translate_word (build_dictionaries df) word to_bangla \<noteq> []"
  by (auto simp add: translate_word_def Let_def bangla_words_not_Nil split: option.splits
      dest!: chakma_to_bangla_built bangla_to_chakma_built)


section \<open>What the sentence translator computes\<close>

text \<open>
  When no word has an empty list of translations, the loop ends without an exception:
  it appends one first translation for each word, and one entry for each word with more
  than one translation.
\<close>

lemma translate_loop_total:
  "\<forall>w \<in> set ws. translate_word t w d \<noteq> [] \<Longrightarrow>
     translate_loop t d ws p a =
       Inr (p @ map (\<lambda>w. hd (translate_word t w d)) ws,
            a @ map (\<lambda>w. alternative_entry w (translate_word t w d))
                  (filter (\<lambda>w. length (translate_word t w d) > 1) ws))"
proof (induction ws arbitrary: p a)
  case Nil
  then show ?case by simp
next
  case (Cons w ws)
  then obtain x xs where tw: "translate_word t w d = x # xs"
    by (cases "translate_word t w d") auto
  from Cons.prems have "\<forall>w \<in> set ws. translate_word t w d \<noteq> []" by simp
  from Cons.IH [OF this] tw show ?case by simp
qed

lemma translate_sentence_built:
  "translate_sentence (build_dictionaries df) s d =
     Inr (join '' '' (map (\<lambda>w. hd (translate_word (build_dictionaries df) w d)) (split_ws s)),
          if filter (\<lambda>w. length (translate_word (build_dictionaries df) w d) > 1) (split_ws s) \<noteq> []
          then map (\<lambda>w. alternative_entry w (translate_word (build_dictionaries df) w d))
                 (filter (\<lambda>w. length (translate_word (build_dictionaries df) w d) > 1) (split_ws s))
          else no_alternatives)"
  by (simp add: translate_sentence_def translate_loop_total translate_word_built_not_Nil
      no_alternatives_def)

text \<open>An entry for a word has a colon in it, and the sentinel has none.\<close>

lemma alternative_entry_not_sentinel:
  "alternative_entry w v \<noteq> ''No alternative translations''"
proof
  assume "alternative_entry w v = ''No alternative translations''"
  then have "set (alternative_entry w v) = set ''No alternative translations''" by simp
  moreover have "CHR '':'' \<in> set (alternative_entry w v)"
    by (simp add: alternative_entry_def)
  ultimately show False by simp
qed

lemma split_run_nonspace:
  "\<forall>c \<in> set w. \<not> isspace c \<Longrightarrow> split_run cur (w @ rest) = split_run (rev w @ cur) rest"
  by (induction w arbitrary: cur) simp_all

lemma isspace_space: "isspace CHR '' ''"
  by (simp add: isspace_def)

text \<open>
  Splitting undoes joining with one space when every joined piece is a word: not empty,
  and free of whitespace.
\<close>

lemma split_ws_join:
  "\<forall>w \<in> set ws. w \<noteq> [] \<and> (\<forall>c \<in> set w. \<not> isspace c) \<Longrightarrow> split_ws (join '' '' ws) = ws"
proof (induction ws)
  case Nil
  then show ?case by (simp add: split_ws_def)
next
  case (Cons x ws)
  note IH = Cons.IH and prems = Cons.prems
  from prems have x: "x \<noteq> []" "\<forall>c \<in> set x. \<not> isspace c" by simp_all
  show ?case
  proof (cases ws)
    case Nil
    from x(2) have "split_run [] (x @ []) = split_run (rev x @ []) []"
      by (rule split_run_nonspace)
    with x(1) Nil show ?thesis by (simp add: split_ws_def)
  next
    case (Cons y ys)
    from x(2) have "split_run [] (x @ CHR '' '' # join '' '' ws)
        = split_run (rev x @ []) (CHR '' '' # join '' '' ws)"
      by (rule split_run_nonspace)
    moreover from prems IH have "split_run [] (join '' '' ws) = ws"
      by (simp add: split_ws_def)
    ultimately show ?thesis using x(1) Cons by (simp add: split_ws_def isspace_space)
  qed
qed

text \<open>
  The keys of the built indexes are lower-cased stripped terms that are not empty; the
  stored lists are the rows' lists of stripped terms, in the case they were written in.
\<close>

lemma keys_of_normalized:
  assumes "k \<in> set (keys_of ws)" and "\<forall>w \<in> set ws. strip w = w"
  shows "k \<noteq> [] \<and> strip k = k \<and> lower k = k"
proof -
  from assms obtain w where w: "w \<in> set ws" "w \<noteq> []" "k = lower w" "strip w = w"
    by (auto simp add: keys_of_def)
  then show ?thesis by (simp add: lower_Nil_iff lower_idem strip_lower)
qed

lemma built_keys_normalized:
  assumes "chakma_to_bangla (build_dictionaries df) k = Some v \<or>
           bangla_to_chakma (build_dictionaries df) k = Some v"
  shows "k \<noteq> [] \<and> strip k = k \<and> lower k = k"
  using assms
proof
  assume "chakma_to_bangla (build_dictionaries df) k = Some v"
  from chakma_to_bangla_built [OF this] obtain r
    where "k \<in> set (keys_of (chakma_words r))" by blast
  then show ?thesis by (rule keys_of_normalized) (simp add: chakma_words_stripped)
next
  assume "bangla_to_chakma (build_dictionaries df) k = Some v"
  from bangla_to_chakma_built [OF this] obtain r
    where "k \<in> set (keys_of (bangla_words r))" by blast
  then show ?thesis by (rule keys_of_normalized) (simp add: bangla_words_stripped)
qed


section \<open>What the word endpoint answers\<close>










section \<open>The claims\<close>

text \<open>
  C1. The loader builds the reverse index with a Bangla-to-Bangla mapping. The step for
  a row stores the row's own list of Bangla terms under the lower-cased form of each of
  its Bangla terms that is not empty, and the entry is still there at the end when no later
  row writes the same key. Every entry of the built reverse index is some row's Bangla list, stored under the
  lower-cased form of one of its own terms. For the one row with Chakma cell
  \<open>cha1, cha2\<close> and Bangla cell \<open>ban1\<close>, both Chakma terms map to \<open>[ban1]\<close>, and so
  does \<open>ban1\<close> in the reverse index.
\<close>

theorem reverse_index_maps_bangla_to_bangla:
  "(\<forall>t r b.
      b \<in> set (bangla_words r) \<and> b \<noteq> [] \<longrightarrow>
      bangla_to_chakma (add_row t r) (lower b) = Some (bangla_words r)) \<and>
   (\<forall>pre r post b.
      b \<in> set (bangla_words r) \<and> b \<noteq> [] \<and>
      (\<forall>r' \<in> set post. lower b \<notin> set (keys_of (bangla_words r'))) \<longrightarrow>
      bangla_to_chakma (build_dictionaries (pre @ r # post)) (lower b) = Some (bangla_words r)) \<and>
   (\<forall>df k v.
      bangla_to_chakma (build_dictionaries df) k = Some v \<longrightarrow>
      (\<exists>r \<in> set df. v = bangla_words r \<and> (\<exists>b \<in> set v. b \<noteq> [] \<and> lower b = k))) \<and>
   (let t = build_dictionaries [\<lparr>chakma = Str ''cha1, cha2'', bangla = Str ''ban1''\<rparr>]
    in chakma_to_bangla t ''cha1'' = Some [''ban1''] \<and>
       chakma_to_bangla t ''cha2'' = Some [''ban1''] \<and>
       bangla_to_chakma t ''ban1'' = Some [''ban1''])"
proof (intro conjI allI impI)
  fix t r b
  assume "b \<in> set (bangla_words r) \<and> b \<noteq> []"
  then have "lower b \<in> set (keys_of (bangla_words r))"
    by (auto simp add: keys_of_def)
  then show "bangla_to_chakma (add_row t r) (lower b) = Some (bangla_words r)"
    by (simp add: bangla_to_chakma_add_row)
next
  fix pre r post b
  assume h: "b \<in> set (bangla_words r) \<and> b \<noteq> [] \<and>
    (\<forall>r' \<in> set post. lower b \<notin> set (keys_of (bangla_words r')))"
  then have "lower b \<in> set (keys_of (bangla_words r))"
    by (auto simp add: keys_of_def)
  with h show "bangla_to_chakma (build_dictionaries (pre @ r # post)) (lower b)
      = Some (bangla_words r)"
    by (simp add: bangla_to_chakma_last_row)
next
  fix df k v
  assume "bangla_to_chakma (build_dictionaries df) k = Some v"
  from bangla_to_chakma_built [OF this]
  show "\<exists>r \<in> set df. v = bangla_words r \<and> (\<exists>b \<in> set v. b \<noteq> [] \<and> lower b = k)"
    by (auto simp add: keys_of_def)
next
  show "let t = build_dictionaries [\<lparr>chakma = Str ''cha1, cha2'', bangla = Str ''ban1''\<rparr>]
    in chakma_to_bangla t ''cha1'' = Some [''ban1''] \<and>
       chakma_to_bangla t ''cha2'' = Some [''ban1''] \<and>
       bangla_to_chakma t ''ban1'' = Some [''ban1'']"
    by code_simp
qed

theorem reverse_index_maps_bangla_to_bangla_witness:
  "bangla_words \<lparr>chakma = Str ''cha1'', bangla = Str ''Ban1, ban2''\<rparr> = [''Ban1'', ''ban2''] \<and>
   bangla_to_chakma
     (build_dictionaries
        ([\<lparr>chakma = Str ''x'', bangla = Str ''ban1''\<rparr>]
         @ \<lparr>chakma = Str ''cha1'', bangla = Str ''Ban1, ban2''\<rparr>
         # [\<lparr>chakma = Str ''y'', bangla = Str ''ban3''\<rparr>]))
     ''ban1'' = Some [''Ban1'', ''ban2'']"
proof -
  let ?r = "\<lparr>chakma = Str ''cha1'', bangla = Str ''Ban1, ban2''\<rparr>"
  let ?post = "[\<lparr>chakma = Str ''y'', bangla = Str ''ban3''\<rparr>]"
  have w: "bangla_words ?r = [''Ban1'', ''ban2'']" by code_simp
  have l: "lower ''Ban1'' = ''ban1''" by code_simp
  have p: "\<forall>r' \<in> set ?post. lower ''Ban1'' \<notin> set (keys_of (bangla_words r'))" by code_simp
  have "''Ban1'' \<in> set (bangla_words ?r) \<and> ''Ban1'' \<noteq> [] \<and>
      (\<forall>r' \<in> set ?post. lower ''Ban1'' \<notin> set (keys_of (bangla_words r')))"
    using p by (simp add: w)
  with reverse_index_maps_bangla_to_bangla
  have "bangla_to_chakma
     (build_dictionaries ([\<lparr>chakma = Str ''x'', bangla = Str ''ban1''\<rparr>] @ ?r # ?post))
     (lower ''Ban1'') = Some (bangla_words ?r)"
    by blast
  then show ?thesis by (simp only: w l simp_thms)
qed

text \<open>
  C2, as the code has it. \<open>translate_word\<close> lower-cases the word and does not strip
  it. A word with whitespace at an end, such as \<open>" Xyz"\<close>, whose normalized form is
  no key, comes back as \<open>[" xyz"]\<close>, which is not its normalized form.
\<close>

theorem translate_word_miss_untrimmed_counterexample:
  "chakma_to_bangla
     (build_dictionaries [\<lparr>chakma = Str ''cha1, cha2'', bangla = Str ''ban1''\<rparr>])
     (normalize_term '' Xyz'') = None \<and>
   translate_word
     (build_dictionaries [\<lparr>chakma = Str ''cha1, cha2'', bangla = Str ''ban1''\<rparr>])
     '' Xyz'' True = ['' xyz''] \<and>
   translate_word
     (build_dictionaries [\<lparr>chakma = Str ''cha1, cha2'', bangla = Str ''ban1''\<rparr>])
     '' Xyz'' True \<noteq> [normalize_term '' Xyz'']"
  by code_simp

text \<open>
  C2, amended. For every word whose lower-cased form is not a key of the index that the
  direction selects, \<open>translate_word\<close> returns the list of one element holding the
  lower-cased word; for a word with no whitespace at either end, that element is the
  normalized word.
\<close>

theorem translate_word_miss:
  assumes "(if to_bangla then chakma_to_bangla t else bangla_to_chakma t) (lower word) = None"
  shows "translate_word t word to_bangla = [lower word] \<and>
         (strip word = word \<longrightarrow> translate_word t word to_bangla = [normalize_term word])"
  using assms by (simp add: translate_word_def normalize_term_def)

theorem translate_word_miss_witness:
  "chakma_to_bangla
     (build_dictionaries [\<lparr>chakma = Str ''cha1, cha2'', bangla = Str ''ban1''\<rparr>])
     (lower ''Xyz'') = None \<and>
   strip ''Xyz'' = ''Xyz'' \<and>
   translate_word
     (build_dictionaries [\<lparr>chakma = Str ''cha1, cha2'', bangla = Str ''ban1''\<rparr>])
     ''Xyz'' True = [''xyz''] \<and>
   translate_word
     (build_dictionaries [\<lparr>chakma = Str ''cha1, cha2'', bangla = Str ''ban1''\<rparr>])
     ''Xyz'' True = [normalize_term ''Xyz'']"
proof -
  let ?t = "build_dictionaries [\<lparr>chakma = Str ''cha1, cha2'', bangla = Str ''ban1''\<rparr>]"
  have miss: "(if True then chakma_to_bangla ?t else bangla_to_chakma ?t) (lower ''Xyz'') = None"
    by code_simp
  have s: "strip ''Xyz'' = ''Xyz''" by code_simp
  have l: "lower ''Xyz'' = ''xyz''" by code_simp
  have n: "normalize_term ''Xyz'' = ''xyz''" by code_simp
  from translate_word_miss [OF miss] s miss l n show ?thesis by simp
qed

text \<open>
  C3, at a cell with nothing in it. \<open>str\<close> turns the NaN of such a cell into the text
  \<open>nan\<close>, so the row's list for that column is \<open>[nan]\<close> and not the empty list:
  \<open>nan\<close> becomes a key, and the value of the terms of the other column. A cell holding
  the empty text gives the list of one empty term, which is not the empty list either.
\<close>

theorem missing_cell_is_read_as_nan:
  "bangla_words \<lparr>chakma = Str ''abc'', bangla = NaN\<rparr> = [''nan''] \<and>
   chakma_to_bangla (build_dictionaries [\<lparr>chakma = Str ''abc'', bangla = NaN\<rparr>]) ''abc''
     = Some [''nan''] \<and>
   bangla_to_chakma (build_dictionaries [\<lparr>chakma = Str ''abc'', bangla = NaN\<rparr>]) ''nan''
     = Some [''nan''] \<and>
   chakma_to_bangla (build_dictionaries [\<lparr>chakma = NaN, bangla = Str ''xyz''\<rparr>]) ''nan''
     = Some [''xyz''] \<and>
   bangla_words \<lparr>chakma = Str ''abc'', bangla = Str []\<rparr> = [[]]"
  by code_simp

text \<open>
  C4, as the code has it. Two rows have the Chakma term \<open>a\<close>, the first with the Bangla
  list \<open>[x]\<close> and the second with \<open>[y]\<close>. The index holds \<open>[y]\<close> for \<open>a\<close>:
  the assignment of the later row replaces the entry of the first.
\<close>

theorem first_row_does_not_win_counterexample:
  "''a'' \<in> set (keys_of (chakma_words \<lparr>chakma = Str ''a'', bangla = Str ''x''\<rparr>)) \<and>
   ''a'' \<in> set (keys_of (chakma_words \<lparr>chakma = Str ''a'', bangla = Str ''y''\<rparr>)) \<and>
   chakma_to_bangla
     (build_dictionaries
        [\<lparr>chakma = Str ''a'', bangla = Str ''x''\<rparr>, \<lparr>chakma = Str ''a'', bangla = Str ''y''\<rparr>])
     ''a'' = Some [''y''] \<and>
   chakma_to_bangla
     (build_dictionaries
        [\<lparr>chakma = Str ''a'', bangla = Str ''x''\<rparr>, \<lparr>chakma = Str ''a'', bangla = Str ''y''\<rparr>])
     ''a'' \<noteq> Some (bangla_words \<lparr>chakma = Str ''a'', bangla = Str ''x''\<rparr>)"
  by code_simp

text \<open>
  C4, amended. When several rows write the same key, the index holds the list of the last
  of them: a row's entry for a key is the final one exactly when no later row writes the
  key, whatever the rows before it hold. This is so in both indexes.
\<close>

theorem last_row_wins:
  "(k \<in> set (keys_of (chakma_words r)) \<and>
    (\<forall>r' \<in> set post. k \<notin> set (keys_of (chakma_words r'))) \<longrightarrow>
    chakma_to_bangla (build_dictionaries (pre @ r # post)) k = Some (bangla_words r)) \<and>
   (k \<in> set (keys_of (bangla_words r)) \<and>
    (\<forall>r' \<in> set post. k \<notin> set (keys_of (bangla_words r'))) \<longrightarrow>
    bangla_to_chakma (build_dictionaries (pre @ r # post)) k = Some (bangla_words r))"
  by (simp add: chakma_to_bangla_last_row bangla_to_chakma_last_row)

theorem last_row_wins_witness:
  "''a'' \<in> set (keys_of (chakma_words \<lparr>chakma = Str ''a'', bangla = Str ''x''\<rparr>)) \<and>
   ''a'' \<in> set (keys_of (chakma_words \<lparr>chakma = Str ''A, b'', bangla = Str ''y''\<rparr>)) \<and>
   ''a'' \<notin> set (keys_of (chakma_words \<lparr>chakma = Str ''c'', bangla = Str ''z''\<rparr>)) \<and>
   chakma_to_bangla
     (build_dictionaries
        ([\<lparr>chakma = Str ''a'', bangla = Str ''x''\<rparr>]
         @ \<lparr>chakma = Str ''A, b'', bangla = Str ''y''\<rparr>
         # [\<lparr>chakma = Str ''c'', bangla = Str ''z''\<rparr>]))
     ''a'' = Some [''y'']"
proof -
  let ?r = "\<lparr>chakma = Str ''A, b'', bangla = Str ''y''\<rparr>"
  let ?post = "[\<lparr>chakma = Str ''c'', bangla = Str ''z''\<rparr>]"
  have a: "''a'' \<in> set (keys_of (chakma_words \<lparr>chakma = Str ''a'', bangla = Str ''x''\<rparr>))"
    by code_simp
  have b: "''a'' \<in> set (keys_of (chakma_words ?r))" by code_simp
  have c: "''a'' \<notin> set (keys_of (chakma_words \<lparr>chakma = Str ''c'', bangla = Str ''z''\<rparr>))"
    by code_simp
  have v: "bangla_words ?r = [''y'']" by code_simp
  from c have "\<forall>r' \<in> set ?post. ''a'' \<notin> set (keys_of (chakma_words r'))" by simp
  with b last_row_wins [of "''a''" ?r ?post "[\<lparr>chakma = Str ''a'', bangla = Str ''x''\<rparr>]"]
  have "chakma_to_bangla
     (build_dictionaries ([\<lparr>chakma = Str ''a'', bangla = Str ''x''\<rparr>] @ ?r # ?post))
     ''a'' = Some (bangla_words ?r)"
    by blast
  with a b c v show ?thesis by (simp only: simp_thms)
qed

text \<open>
  C5. On the dictionaries that the loader builds, \<open>translate_word\<close> returns a list that
  is not empty, for every word (the empty word too) and in both directions: a stored list
  has at least the one piece that splitting a cell always gives, and a word that is not
  found comes back as a list of one.
\<close>

theorem translate_word_nonempty:
  "translate_word (build_dictionaries df) word to_bangla \<noteq> []"
  by (rule translate_word_built_not_Nil)

theorem translate_word_nonempty_witness:
  "translate_word (build_dictionaries [\<lparr>chakma = Str ''cha1, cha2'', bangla = Str ''ban1''\<rparr>])
     ''cha1'' True = [''ban1''] \<and>
   translate_word (build_dictionaries [\<lparr>chakma = Str ''cha1, cha2'', bangla = Str ''ban1''\<rparr>])
     ''cha1'' True \<noteq> []"
  using translate_word_nonempty
    [of "[\<lparr>chakma = Str ''cha1, cha2'', bangla = Str ''ban1''\<rparr>]" "''cha1''" True]
  by code_simp

text \<open>
  C6. On the dictionaries that the loader builds, \<open>translate_sentence\<close> returns for every
  sentence and both directions; its list of alternatives is never empty, and it is the
  list of the one sentinel \<open>No alternative translations\<close> exactly when no word of the
  sentence has more than one translation.
\<close>

theorem sentinel_iff_no_alternatives:
  "\<exists>primary alternatives.
     translate_sentence (build_dictionaries df) sentence to_bangla = Inr (primary, alternatives) \<and>
     alternatives \<noteq> [] \<and>
     (alternatives = [''No alternative translations''] \<longleftrightarrow>
        (\<forall>word \<in> set (split_ws sentence).
           \<not> length (translate_word (build_dictionaries df) word to_bangla) > 1))"
proof -
  define tw where "tw = (\<lambda>w. translate_word (build_dictionaries df) w to_bangla)"
  define many where "many = filter (\<lambda>w. length (tw w) > 1) (split_ws sentence)"
  define alts where
    "alts = (if many \<noteq> [] then map (\<lambda>w. alternative_entry w (tw w)) many else no_alternatives)"
  have ts: "translate_sentence (build_dictionaries df) sentence to_bangla
      = Inr (join '' '' (map (\<lambda>w. hd (tw w)) (split_ws sentence)), alts)"
    unfolding alts_def many_def tw_def by (rule translate_sentence_built)
  have none: "many = [] \<longleftrightarrow> (\<forall>word \<in> set (split_ws sentence). \<not> length (tw word) > 1)"
    unfolding many_def by (simp add: filter_empty_conv)
  have ne: "alts \<noteq> []"
    unfolding alts_def by (simp add: no_alternatives_def)
  have sentinel: "alts = [''No alternative translations''] \<longleftrightarrow> many = []"
  proof (cases many)
    case Nil
    then show ?thesis unfolding alts_def by (simp add: no_alternatives_def)
  next
    case (Cons w ws)
    then have "alts = alternative_entry w (tw w) # map (\<lambda>w. alternative_entry w (tw w)) ws"
      unfolding alts_def by simp
    with Cons show ?thesis by (simp add: alternative_entry_not_sentinel)
  qed
  from ts ne sentinel none show ?thesis
    unfolding tw_def by blast
qed

theorem sentinel_iff_no_alternatives_witness:
  "split_ws ''cha1 unknownxyz'' = [''cha1'', ''unknownxyz''] \<and>
   length (translate_word
     (build_dictionaries [\<lparr>chakma = Str ''cha1, cha2'', bangla = Str ''ban1''\<rparr>])
     ''cha1'' True) = 1 \<and>
   length (translate_word
     (build_dictionaries [\<lparr>chakma = Str ''cha1, cha2'', bangla = Str ''ban1''\<rparr>])
     ''unknownxyz'' True) = 1 \<and>
   (\<exists>primary. translate_sentence
     (build_dictionaries [\<lparr>chakma = Str ''cha1, cha2'', bangla = Str ''ban1''\<rparr>])
     ''cha1 unknownxyz'' True = Inr (primary, [''No alternative translations'']))"
proof -
  let ?t = "build_dictionaries [\<lparr>chakma = Str ''cha1, cha2'', bangla = Str ''ban1''\<rparr>]"
  have s: "split_ws ''cha1 unknownxyz'' = [''cha1'', ''unknownxyz'']" by code_simp
  have a: "length (translate_word ?t ''cha1'' True) = 1" by code_simp
  have b: "length (translate_word ?t ''unknownxyz'' True) = 1" by code_simp
  from a b have "\<forall>word \<in> set [''cha1'', ''unknownxyz''].
      \<not> length (translate_word ?t word True) > 1"
    by simp
  then have "\<forall>word \<in> set (split_ws ''cha1 unknownxyz'').
      \<not> length (translate_word ?t word True) > 1"
    by (simp only: s)
  with sentinel_iff_no_alternatives
    [of "[\<lparr>chakma = Str ''cha1, cha2'', bangla = Str ''ban1''\<rparr>]" "''cha1 unknownxyz''" True]
  have "\<exists>primary. translate_sentence ?t ''cha1 unknownxyz'' True
      = Inr (primary, [''No alternative translations''])"
    by blast
  with s a b show ?thesis by (simp only: simp_thms)
qed

text \<open>
  C7, as the code has it. A stored first translation may have a blank inside. With the
  row of Chakma \<open>a\<close> and Bangla \<open>b c\<close>, the sentence \<open>a\<close> of one word has the primary
  translation \<open>b c\<close>, which splits into two words.
\<close>

theorem primary_token_count_counterexample:
  "translate_sentence
     (build_dictionaries [\<lparr>chakma = Str ''a'', bangla = Str ''b c''\<rparr>]) ''a'' True
     = Inr (''b c'', [''No alternative translations'']) \<and>
   length (split_ws ''b c'') = 2 \<and>
   length (split_ws ''a'') = 1 \<and>
   split_ws ''b c'' \<noteq>
     map (\<lambda>w. hd (translate_word
                    (build_dictionaries [\<lparr>chakma = Str ''a'', bangla = Str ''b c''\<rparr>]) w True))
       (split_ws ''a'')"
  by code_simp

text \<open>
  C7, amended. On the dictionaries that the loader builds, the primary output of
  \<open>translate_sentence\<close> is the first elements of the words' translations, in the order
  of the words, joined with single spaces. When each of these first elements is a word
  itself (not empty, no whitespace in it), splitting the primary output on whitespace
  gives them back, one for each word of the sentence.
\<close>

theorem primary_is_joined_first_translations:
  "\<exists>alternatives.
     translate_sentence (build_dictionaries df) sentence to_bangla =
       Inr (join '' '' (map (\<lambda>w. hd (translate_word (build_dictionaries df) w to_bangla))
                         (split_ws sentence)),
            alternatives) \<and>
     ((\<forall>w \<in> set (split_ws sentence).
         hd (translate_word (build_dictionaries df) w to_bangla) \<noteq> [] \<and>
         (\<forall>c \<in> set (hd (translate_word (build_dictionaries df) w to_bangla)). \<not> isspace c)) \<longrightarrow>
      split_ws (join '' '' (map (\<lambda>w. hd (translate_word (build_dictionaries df) w to_bangla))
                              (split_ws sentence)))
        = map (\<lambda>w. hd (translate_word (build_dictionaries df) w to_bangla)) (split_ws sentence))"
proof (intro exI conjI impI)
  show "translate_sentence (build_dictionaries df) sentence to_bangla =
       Inr (join '' '' (map (\<lambda>w. hd (translate_word (build_dictionaries df) w to_bangla))
                         (split_ws sentence)),
            if filter (\<lambda>w. length (translate_word (build_dictionaries df) w to_bangla) > 1)
                 (split_ws sentence) \<noteq> []
            then map (\<lambda>w. alternative_entry w (translate_word (build_dictionaries df) w to_bangla))
                 (filter (\<lambda>w. length (translate_word (build_dictionaries df) w to_bangla) > 1)
                    (split_ws sentence))
            else no_alternatives)"
    by (rule translate_sentence_built)
next
  assume "\<forall>w \<in> set (split_ws sentence).
         hd (translate_word (build_dictionaries df) w to_bangla) \<noteq> [] \<and>
         (\<forall>c \<in> set (hd (translate_word (build_dictionaries df) w to_bangla)). \<not> isspace c)"
  then show "split_ws (join '' '' (map (\<lambda>w. hd (translate_word (build_dictionaries df) w to_bangla))
                              (split_ws sentence)))
        = map (\<lambda>w. hd (translate_word (build_dictionaries df) w to_bangla)) (split_ws sentence)"
    by (intro split_ws_join) simp
qed

theorem primary_is_joined_first_translations_witness:
  "map (\<lambda>w. hd (translate_word
     (build_dictionaries [\<lparr>chakma = Str ''cha1, cha2'', bangla = Str ''ban1''\<rparr>]) w True))
     (split_ws ''cha1  unknownxyz'') = [''ban1'', ''unknownxyz''] \<and>
   (\<exists>alternatives. translate_sentence
     (build_dictionaries [\<lparr>chakma = Str ''cha1, cha2'', bangla = Str ''ban1''\<rparr>])
     ''cha1  unknownxyz'' True = Inr (''ban1 unknownxyz'', alternatives)) \<and>
   split_ws ''ban1 unknownxyz'' = [''ban1'', ''unknownxyz'']"
proof -
  let ?df = "[\<lparr>chakma = Str ''cha1, cha2'', bangla = Str ''ban1''\<rparr>]"
  let ?f = "\<lambda>w. hd (translate_word (build_dictionaries ?df) w True)"
  have m: "map ?f (split_ws ''cha1  unknownxyz'') = [''ban1'', ''unknownxyz'']"
    by code_simp
  have j: "join '' '' [''ban1'', ''unknownxyz''] = ''ban1 unknownxyz''" by code_simp
  have "\<forall>w \<in> set [''ban1'', ''unknownxyz'']. w \<noteq> [] \<and> (\<forall>c \<in> set w. \<not> isspace c)"
    by code_simp
  then have "\<forall>w \<in> set (map ?f (split_ws ''cha1  unknownxyz'')).
      w \<noteq> [] \<and> (\<forall>c \<in> set w. \<not> isspace c)"
    by (simp only: m)
  then have h: "\<forall>w \<in> set (split_ws ''cha1  unknownxyz'').
      ?f w \<noteq> [] \<and> (\<forall>c \<in> set (?f w). \<not> isspace c)"
    by simp
  from primary_is_joined_first_translations [of ?df "''cha1  unknownxyz''" True] h
  have "(\<exists>alternatives. translate_sentence (build_dictionaries ?df) ''cha1  unknownxyz'' True
        = Inr (join '' '' (map ?f (split_ws ''cha1  unknownxyz'')), alternatives)) \<and>
      split_ws (join '' '' (map ?f (split_ws ''cha1  unknownxyz'')))
        = map ?f (split_ws ''cha1  unknownxyz'')"
    by blast
  then show ?thesis by (simp only: m j simp_thms)
qed





text \<open>
  C10. In the built reverse index, the list stored under a key holds a term whose
  stripped, lower-cased form is the key. So the translation of a known Bangla word towards
  Chakma holds the word itself, up to case.
\<close>

theorem reverse_index_holds_own_key:
  "(\<forall>k v. bangla_to_chakma (build_dictionaries df) k = Some v \<longrightarrow>
           (\<exists>b \<in> set v. normalize_term b = k)) \<and>
   (\<forall>word. bangla_to_chakma (build_dictionaries df) (lower word) \<noteq> None \<longrightarrow>
           (\<exists>b \<in> set (translate_word (build_dictionaries df) word False).
              normalize_term b = lower word))"
proof -
  have entry: "\<exists>b \<in> set v. normalize_term b = k"
    if "bangla_to_chakma (build_dictionaries df) k = Some v" for k v
  proof -
    from bangla_to_chakma_built [OF that] obtain r b
      where "v = bangla_words r" "b \<in> set (bangla_words r)" "lower b = k"
      by (auto simp add: keys_of_def)
    then show ?thesis by (auto simp add: normalize_term_def bangla_words_stripped)
  qed
  then show ?thesis by (auto simp add: translate_word_def)
qed

theorem reverse_index_holds_own_key_witness:
  "bangla_to_chakma
     (build_dictionaries [\<lparr>chakma = Str ''cha1'', bangla = Str ''Ban1, ban2''\<rparr>])
     (lower ''BAN2'') = Some [''Ban1'', ''ban2''] \<and>
   translate_word
     (build_dictionaries [\<lparr>chakma = Str ''cha1'', bangla = Str ''Ban1, ban2''\<rparr>])
     ''BAN2'' False = [''Ban1'', ''ban2''] \<and>
   (\<exists>b. b \<in> set [''Ban1'', ''ban2''] \<and> normalize_term b = lower ''BAN2'')"
proof -
  let ?t = "build_dictionaries [\<lparr>chakma = Str ''cha1'', bangla = Str ''Ban1, ban2''\<rparr>]"
  have k: "bangla_to_chakma ?t (lower ''BAN2'') = Some [''Ban1'', ''ban2'']" by code_simp
  have w: "translate_word ?t ''BAN2'' False = [''Ban1'', ''ban2'']" by code_simp
  from k have "bangla_to_chakma ?t (lower ''BAN2'') \<noteq> None" by simp
  with reverse_index_holds_own_key [of "[\<lparr>chakma = Str ''cha1'', bangla = Str ''Ban1, ban2''\<rparr>]"]
  have "\<exists>b \<in> set (translate_word ?t ''BAN2'' False). normalize_term b = lower ''BAN2''" by blast
  with k w show ?thesis by (simp only: bex_simps simp_thms) blast
qed

end
